theory Spec2Isabelle
  imports Complex_Main
begin

section \<open>Python values used by \<open>ibkr_tv_bot.py\<close>\<close>

text \<open>
  Exceptions are values: a function that can raise returns \<open>py_error + 'a\<close>, with
  \<open>Inl\<close> for the exception that leaves the function.
\<close>

datatype py_error = ValueError | ZeroDivisionError | OverflowError | KeyError | AttributeError

subsection \<open>Floats\<close>

text \<open>
  A Python float is an IEEE binary64 value: a finite number, an infinity or NaN. A
  finite value is kept as the real number it denotes; the two zeros are one value (the
  bot never looks at the sign of a zero). Every operation on finite operands computes
  the exact result and rounds it with \<open>round64\<close>: to the nearest value with a 53-bit
  significand, ties to the even significand, with exponents from \<open>-1022\<close> (below it the
  subnormal spacing \<open>2^-1074\<close>) and overflow to an infinity from \<open>2^1024\<close> on.
\<close>

datatype float64 = Fin real | PInf | NInf | NaN

definition pow2 :: "int \<Rightarrow> real" where
  "pow2 e = (if 0 \<le> e then 2 ^ nat e else 1 / 2 ^ nat (- e))"

text \<open>\<open>log2_up x\<close> is the binary exponent of \<open>x \<ge> 1\<close>.\<close>

function log2_up :: "real \<Rightarrow> int" where
  "log2_up x = (if 2 \<le> x then 1 + log2_up (x / 2) else 0)"
  by pat_completeness auto
termination
proof (relation "measure (\<lambda>x. nat \<lfloor>x\<rfloor>)")
  show "wf (measure (\<lambda>x::real. nat \<lfloor>x\<rfloor>))" by simp
next
  fix x :: real
  assume h: "2 \<le> x"
  have "x / 2 \<le> x - 1" using h by simp
  then have "\<lfloor>x / 2\<rfloor> \<le> \<lfloor>x - 1\<rfloor>" by (rule floor_mono)
  also have "\<dots> = \<lfloor>x\<rfloor> - 1" by simp
  finally have "\<lfloor>x / 2\<rfloor> < \<lfloor>x\<rfloor>" by simp
  moreover have "0 < \<lfloor>x\<rfloor>" using h by simp
  ultimately show "(x / 2, x) \<in> measure (\<lambda>x. nat \<lfloor>x\<rfloor>)" by simp
qed

text \<open>
  \<open>log2_down 0 x\<close> is the binary exponent of \<open>0 < x < 1\<close>, not below \<open>-1022\<close>.
\<close>

function log2_down :: "int \<Rightarrow> real \<Rightarrow> int" where
  "log2_down e x = (if x < 1 \<and> - 1022 < e then log2_down (e - 1) (2 * x) else e)"
  by pat_completeness auto
termination
  by (relation "measure (\<lambda>(e, x). nat (e + 1022))") auto

declare log2_up.simps [simp del] log2_down.simps [simp del]

definition exponent :: "real \<Rightarrow> int" where
  "exponent x = (if 1 \<le> \<bar>x\<bar> then log2_up \<bar>x\<bar> else log2_down 0 \<bar>x\<bar>)"

definition round_half_even :: "real \<Rightarrow> int" where
  "round_half_even x =
     (let n = \<lfloor>x\<rfloor>; d = x - of_int n
      in if d < 1 / 2 then n else if 1 / 2 < d then n + 1 else if even n then n else n + 1)"

definition round64 :: "real \<Rightarrow> float64" where
  "round64 x =
     (if x = 0 then Fin 0
      else
        (let u = pow2 (exponent x - 52);
             y = of_int (round_half_even (x / u)) * u
         in if 2 ^ 1024 \<le> \<bar>y\<bar> then (if 0 < x then PInf else NInf) else Fin y))"

text \<open>\<open>a < b\<close>: false as soon as one side is NaN.\<close>

fun float_lt :: "float64 \<Rightarrow> float64 \<Rightarrow> bool" where
  "float_lt (Fin a) (Fin b) = (a < b)"
| "float_lt NaN b = False"
| "float_lt a NaN = False"
| "float_lt PInf b = False"
| "float_lt a NInf = False"
| "float_lt NInf b = True"
| "float_lt a PInf = True"

fun float_neg :: "float64 \<Rightarrow> float64" where
  "float_neg (Fin a) = Fin (- a)"
| "float_neg PInf = NInf"
| "float_neg NInf = PInf"
| "float_neg NaN = NaN"

fun float_sign :: "float64 \<Rightarrow> int" where
  "float_sign (Fin a) = (if a < 0 then - 1 else if a = 0 then 0 else 1)"
| "float_sign PInf = 1"
| "float_sign NInf = - 1"
| "float_sign NaN = 0"

fun float_add :: "float64 \<Rightarrow> float64 \<Rightarrow> float64" where
  "float_add (Fin a) (Fin b) = round64 (a + b)"
| "float_add NaN b = NaN"
| "float_add a NaN = NaN"
| "float_add PInf NInf = NaN"
| "float_add NInf PInf = NaN"
| "float_add PInf b = PInf"
| "float_add NInf b = NInf"
| "float_add a PInf = PInf"
| "float_add a NInf = NInf"

definition float_sub :: "float64 \<Rightarrow> float64 \<Rightarrow> float64" where
  "float_sub a b = float_add a (float_neg b)"

text \<open>With an infinite factor the product is NaN for a zero factor, else an infinity.\<close>

fun float_mul :: "float64 \<Rightarrow> float64 \<Rightarrow> float64" where
  "float_mul (Fin a) (Fin b) = round64 (a * b)"
| "float_mul NaN b = NaN"
| "float_mul a NaN = NaN"
| "float_mul a b =
     (if float_sign a * float_sign b = 0 then NaN
      else if 0 < float_sign a * float_sign b then PInf else NInf)"

text \<open>
  The quotient for a divisor that is not zero; \<open>py_truediv\<close> below raises before a
  division by zero.
\<close>

fun float_div :: "float64 \<Rightarrow> float64 \<Rightarrow> float64" where
  "float_div (Fin a) (Fin b) = round64 (a / b)"
| "float_div NaN b = NaN"
| "float_div a NaN = NaN"
| "float_div (Fin a) b = Fin 0"
| "float_div a (Fin b) = (if 0 < float_sign a * float_sign (Fin b) then PInf else NInf)"
| "float_div a b = NaN"

text \<open>\<open>a / b\<close> on floats raises \<open>ZeroDivisionError\<close> when \<open>b\<close> is zero.\<close>

definition py_truediv :: "float64 \<Rightarrow> float64 \<Rightarrow> py_error + float64" where
  "py_truediv a b = (if b = Fin 0 then Inl ZeroDivisionError else Inr (float_div a b))"

text \<open>
  \<open>int(x)\<close> on a float truncates towards zero; it raises \<open>ValueError\<close> on NaN and
  \<open>OverflowError\<close> on an infinity.
\<close>

fun py_int :: "float64 \<Rightarrow> py_error + int" where
  "py_int (Fin x) = Inr (if 0 \<le> x then \<lfloor>x\<rfloor> else \<lceil>x\<rceil>)"
| "py_int NaN = Inl ValueError"
| "py_int PInf = Inl OverflowError"
| "py_int NInf = Inl OverflowError"

text \<open>A quantity handed to an order is an \<open>int\<close> or a float.\<close>

datatype pynum = PyInt int | PyFloat float64

subsection \<open>Strings: \<open>str.strip\<close> and \<open>str.upper\<close>\<close>

text \<open>
  Strings are byte strings here, so \<open>strip\<close> removes the ASCII whitespace characters and
  \<open>upper\<close> maps the ASCII letters; ticker symbols and actions are ASCII.
\<close>

definition is_space :: "char \<Rightarrow> bool" where
  "is_space c \<longleftrightarrow>
     c \<in> set [CHR '' '', CHR 0x09, CHR 0x0A, CHR 0x0B, CHR 0x0C, CHR 0x0D,
              CHR 0x1C, CHR 0x1D, CHR 0x1E, CHR 0x1F]"

definition strip :: "string \<Rightarrow> string" where
  "strip s = rev (dropWhile is_space (rev (dropWhile is_space s)))"

definition upper_char :: "char \<Rightarrow> char" where
  "upper_char c =
     (case map_of (zip ''abcdefghijklmnopqrstuvwxyz'' ''ABCDEFGHIJKLMNOPQRSTUVWXYZ'') c of
        None \<Rightarrow> c
      | Some u \<Rightarrow> u)"

definition upper :: "string \<Rightarrow> string" where
  "upper s = map upper_char s"

subsection \<open>\<open>float(text)\<close>\<close>

text \<open>
  The built-in \<open>float\<close> is not code of the bot. Every function that calls it takes the
  conversion as its first argument \<open>fl\<close>: \<open>fl s = None\<close> stands for \<open>ValueError\<close>. The
  theorems hold for every such conversion.

  \<open>float_lit\<close> is the conversion on plain decimal literals (optional sign, digits,
  optional fraction, surrounding whitespace) and on \<open>nan\<close>, \<open>inf\<close> and \<open>infinity\<close> in
  any case: the value the text denotes, rounded to binary64. It serves to run the
  functions on concrete texts.
\<close>

definition digit_val :: "char \<Rightarrow> nat option" where
  "digit_val c = map_of (zip ''0123456789'' [0, 1, 2, 3, 4, 5, 6, 7, 8, 9]) c"

fun digits_val :: "nat \<Rightarrow> string \<Rightarrow> nat option" where
  "digits_val acc [] = Some acc"
| "digits_val acc (c # cs) =
     (case digit_val c of None \<Rightarrow> None | Some d \<Rightarrow> digits_val (10 * acc + d) cs)"

definition decimal_lit :: "string \<Rightarrow> real option" where
  "decimal_lit s =
     (let ip = takeWhile (\<lambda>c. c \<noteq> CHR ''.'') s;
          fp = drop 1 (dropWhile (\<lambda>c. c \<noteq> CHR ''.'') s)
      in if ip = [] \<and> fp = [] then None
         else (case digits_val 0 ip of
                 None \<Rightarrow> None
               | Some i \<Rightarrow>
                  (case digits_val 0 fp of
                     None \<Rightarrow> None
                   | Some f \<Rightarrow> Some (real i + real f / 10 ^ length fp))))"

definition unsigned_lit :: "string \<Rightarrow> float64 option" where
  "unsigned_lit s =
     (if upper s = ''NAN'' then Some NaN
      else if upper s = ''INF'' \<or> upper s = ''INFINITY'' then Some PInf
      else map_option round64 (decimal_lit s))"

definition float_lit :: "string \<Rightarrow> float64 option" where
  "float_lit s =
     (case strip s of
        [] \<Rightarrow> None
      | c # r \<Rightarrow>
          if c = CHR ''-'' then map_option float_neg (unsigned_lit r)
          else if c = CHR ''+'' then unsigned_lit r
          else unsigned_lit (c # r))"

section \<open>Data model\<close>

text \<open>
  \<open>configs\<close> is the module-level dictionary
  \<open>{ 'AAPL': { 'order_size': 1000.0, 'min_profit': 2.5 }, ... }\<close>.
\<close>

record config =
  order_size :: float64
  min_profit :: float64

type_synonym configs = "string \<rightharpoonup> config"

text \<open>
  What the handlers read from the \<open>ib\<close> connection: the entries of
  \<open>ib.accountValues()\<close> (attributes \<open>tag\<close>, \<open>currency\<close>, \<open>value\<close>) and the ticker
  object of \<open>ib.reqMktData\<close> (attributes \<open>last\<close>, \<open>bid\<close>, \<open>ask\<close>).
\<close>

record account_value =
  tag :: string
  currency :: string
  value_text :: string

record ticker_data =
  last_t :: float64
  bid :: float64
  ask :: float64

text \<open>
  An entry of \<open>ib.positions()\<close>. The sell path reads \<open>contract.symbol\<close> and
  \<open>position\<close> in its search and then the attributes \<open>marketPrice\<close> and
  \<open>averageCost\<close>. The type of the entries belongs to the library, so an entry is an
  object with its further float attributes by name, and reading an attribute the
  object does not have raises \<open>AttributeError\<close>.
\<close>

record position_item =
  account :: string
  symbol :: string
  position :: float64
  attrs :: "string \<rightharpoonup> float64"

definition getattr :: "position_item \<Rightarrow> string \<Rightarrow> py_error + float64" where
  "getattr p name = (case attrs p name of None \<Rightarrow> Inl AttributeError | Some v \<Rightarrow> Inr v)"

text \<open>
  The entries the library returns are its named tuples
  \<open>Position(account, contract, position, avgCost)\<close>.
\<close>

definition Position :: "string \<Rightarrow> string \<Rightarrow> float64 \<Rightarrow> float64 \<Rightarrow> position_item" where
  "Position acct sy pos cost =
     \<lparr>account = acct, symbol = sy, position = pos, attrs = [''avgCost'' \<mapsto> cost]\<rparr>"

text \<open>An entry that does carry the two attributes the sell path reads.\<close>

definition priced_position :: "string \<Rightarrow> float64 \<Rightarrow> float64 \<Rightarrow> float64 \<Rightarrow> position_item" where
  "priced_position sy pos avg mkt =
     \<lparr>account = [], symbol = sy, position = pos,
      attrs = [''marketPrice'' \<mapsto> mkt, ''averageCost'' \<mapsto> avg]\<rparr>"

text \<open>An order handed to \<open>ib.placeOrder(contract, order)\<close>.\<close>

record placed_order =
  contract_symbol :: string
  action :: string
  totalQuantity :: pynum
  lmtPrice :: float64

text \<open>
  The connection as the handlers see it. The queries are answered from the record;
  \<open>placeOrder\<close> appends to \<open>placed\<close>, the only field a handler changes. The calls of
  the connection are taken to return.
\<close>

record broker =
  accountValues :: "account_value list"
  positions :: "position_item list"
  reqMktData :: "string \<Rightarrow> ticker_data"
  placed :: "placed_order list"

definition placeOrder :: "broker \<Rightarrow> placed_order \<Rightarrow> broker" where
  "placeOrder ib ord = ib\<lparr>placed := placed ib @ [ord]\<rparr>"

section \<open>The buy path\<close>

text \<open>
  \<open>next((float(v.value) for v in account_values
         if v.tag == 'AvailableFunds' and v.currency == 'USD'), 0.0)\<close>:
  the first matching entry is converted; without one the default is \<open>0.0\<close>.
\<close>

definition available_funds ::
  "(string \<Rightarrow> float64 option) \<Rightarrow> account_value list \<Rightarrow> py_error + float64" where
  "available_funds fl account_values =
     (case find (\<lambda>v. tag v = ''AvailableFunds'' \<and> currency v = ''USD'') account_values of
        None \<Rightarrow> Inr (Fin 0)
      | Some v \<Rightarrow> (case fl (value_text v) of None \<Rightarrow> Inl ValueError | Some x \<Rightarrow> Inr x))"

text \<open>
  \<open>price = ticker_data.last if ticker_data.last > 0
           else (ticker_data.ask + ticker_data.bid) / 2\<close>
\<close>

definition buy_price :: "ticker_data \<Rightarrow> float64" where
  "buy_price td =
     (if float_lt (Fin 0) (last_t td) then last_t td
      else float_div (float_add (ask td) (bid td)) (Fin 2))"

definition handle_buy ::
  "(string \<Rightarrow> float64 option) \<Rightarrow> configs \<Rightarrow> broker \<Rightarrow> string \<Rightarrow> py_error + broker" where
  "handle_buy fl cfgs ib ticker =
     (case cfgs ticker of
        None \<Rightarrow> Inr ib
      | Some cfg \<Rightarrow>
         (case available_funds fl (accountValues ib) of
            Inl e \<Rightarrow> Inl e
          | Inr available \<Rightarrow>
              if float_lt available (order_size cfg) then Inr ib
              else
                (let price = buy_price (reqMktData ib ticker)
                 in case py_truediv (order_size cfg) price of
                      Inl e \<Rightarrow> Inl e
                    | Inr q \<Rightarrow>
                       (case py_int q of
                          Inl e \<Rightarrow> Inl e
                        | Inr qty \<Rightarrow>
                            if qty \<le> 0 then Inr ib
                            else Inr (placeOrder ib
                                   \<lparr>contract_symbol = ticker, action = ''BUY'',
                                    totalQuantity = PyInt qty, lmtPrice = price\<rparr>)))))"

section \<open>The sell path\<close>

text \<open>
  \<open>next((p for p in positions
         if p.contract.symbol.upper() == ticker and p.position > 0), None)\<close>
\<close>

definition find_position :: "position_item list \<Rightarrow> string \<Rightarrow> position_item option" where
  "find_position ps ticker =
     find (\<lambda>p. upper (symbol p) = ticker \<and> float_lt (Fin 0) (position p)) ps"

text \<open>
  \<open>pnl_value = (market_price - avg_cost) * position.position\<close>,
  \<open>invested = avg_cost * position.position\<close>,
  \<open>pnl_pct = (pnl_value / invested) * 100\<close>.
\<close>

definition pnl_pct :: "float64 \<Rightarrow> float64 \<Rightarrow> float64 \<Rightarrow> py_error + float64" where
  "pnl_pct market_price avg_cost pos =
     (let pnl_value = float_mul (float_sub market_price avg_cost) pos;
          invested = float_mul avg_cost pos
      in case py_truediv pnl_value invested of
           Inl e \<Rightarrow> Inl e
         | Inr r \<Rightarrow> Inr (float_mul r (Fin 100)))"

definition handle_sell :: "configs \<Rightarrow> broker \<Rightarrow> string \<Rightarrow> py_error + broker" where
  "handle_sell cfgs ib ticker =
     (case cfgs ticker of
        None \<Rightarrow> Inr ib
      | Some cfg \<Rightarrow>
         (case find_position (positions ib) ticker of
            None \<Rightarrow> Inr ib
          | Some p \<Rightarrow>
             (case getattr p ''marketPrice'' of
                Inl e \<Rightarrow> Inl e
              | Inr market_price \<Rightarrow>
                 (case getattr p ''averageCost'' of
                    Inl e \<Rightarrow> Inl e
                  | Inr avg_cost \<Rightarrow>
                     (case pnl_pct market_price avg_cost (position p) of
                        Inl e \<Rightarrow> Inl e
                      | Inr pct \<Rightarrow>
                          if float_lt pct (min_profit cfg) then Inr ib
                          else Inr (placeOrder ib
                                 \<lparr>contract_symbol = ticker, action = ''SELL'',
                                  totalQuantity = PyFloat (position p),
                                  lmtPrice = market_price\<rparr>))))))"

section \<open>The webhook\<close>

text \<open>
  The JSON payload is a dictionary of strings; \<open>data.get(k, '')\<close> reads it. The
  response is \<open>jsonify({'status': 'processed'})\<close>.
\<close>

definition get_str :: "(string \<rightharpoonup> string) \<Rightarrow> string \<Rightarrow> string" where
  "get_str data k = (case data k of None \<Rightarrow> [] | Some v \<Rightarrow> v)"

definition processed :: "(string \<times> string) list" where
  "processed = [(''status'', ''processed'')]"

definition webhook ::
  "(string \<Rightarrow> float64 option) \<Rightarrow> configs \<Rightarrow> broker \<Rightarrow> (string \<rightharpoonup> string)
     \<Rightarrow> py_error + ((string \<times> string) list \<times> broker)" where
  "webhook fl cfgs ib data =
     (let ticker = upper (get_str data ''ticker'');
          act = upper (get_str data ''action'')
      in if act = ''BUY'' then
           (case handle_buy fl cfgs ib ticker of
              Inl e \<Rightarrow> Inl e
            | Inr ib' \<Rightarrow> Inr (processed, ib'))
         else if act = ''SELL'' then
           (case handle_sell cfgs ib ticker of
              Inl e \<Rightarrow> Inl e
            | Inr ib' \<Rightarrow> Inr (processed, ib'))
         else Inr (processed, ib))"

text \<open>The orders on the book after a call: an exception leaves before any \<open>placeOrder\<close>.\<close>

definition orders_after :: "broker \<Rightarrow> py_error + broker \<Rightarrow> placed_order list" where
  "orders_after ib r = (case r of Inl e \<Rightarrow> placed ib | Inr ib' \<Rightarrow> placed ib')"

section \<open>The configuration dialogue\<close>

text \<open>
  The conversation states are \<open>TICKER, ORDER_SIZE, PROFIT_PCT = range(3)\<close> and
  \<open>ConversationHandler.END\<close>. \<open>context.user_data\<close> is a dictionary with the keys
  \<open>'ticker'\<close> and \<open>'order_size'\<close>; a key that was never written is \<open>None\<close> here and
  reading it raises \<open>KeyError\<close>.
\<close>

datatype conv_state = END | TICKER | ORDER_SIZE | PROFIT_PCT

record user_data =
  ud_ticker :: "string option"
  ud_order_size :: "float64 option"

definition set_ticker :: conv_state where
  "set_ticker = TICKER"

definition ticker_received :: "user_data \<Rightarrow> string \<Rightarrow> user_data \<times> conv_state" where
  "ticker_received ud msg =
     (let ticker = upper (strip msg)
      in (ud\<lparr>ud_ticker := Some ticker\<rparr>, ORDER_SIZE))"

definition order_size_received ::
  "(string \<Rightarrow> float64 option) \<Rightarrow> user_data \<Rightarrow> string \<Rightarrow> user_data \<times> conv_state" where
  "order_size_received fl ud msg =
     (case fl (strip msg) of
        None \<Rightarrow> (ud, ORDER_SIZE)
      | Some sz \<Rightarrow> (ud\<lparr>ud_order_size := Some sz\<rparr>, PROFIT_PCT))"

definition profit_received ::
  "(string \<Rightarrow> float64 option) \<Rightarrow> user_data \<Rightarrow> configs \<Rightarrow> string
     \<Rightarrow> py_error + (configs \<times> conv_state)" where
  "profit_received fl ud cfgs msg =
     (case fl (strip msg) of
        None \<Rightarrow> Inr (cfgs, PROFIT_PCT)
      | Some percent \<Rightarrow>
         (case ud_ticker ud of
            None \<Rightarrow> Inl KeyError
          | Some ticker \<Rightarrow>
             (case ud_order_size ud of
                None \<Rightarrow> Inl KeyError
              | Some sz \<Rightarrow>
                  Inr (cfgs(ticker \<mapsto> \<lparr>order_size = sz, min_profit = percent\<rparr>), END))))"

definition cancel :: conv_state where
  "cancel = END"

text \<open>
  One chat: the conversation state, \<open>context.user_data\<close> and the \<open>configs\<close> dictionary.
  An update is a command (\<open>/set\<close>, \<open>/cancel\<close>, \<open>/start\<close>, ...) or a text message that is
  not a command (\<open>filters.TEXT & ~filters.COMMAND\<close>).
\<close>

record session =
  conv :: conv_state
  udata :: user_data
  store :: configs

datatype update = Command string | Text string

text \<open>
  The routing declared by \<open>ConversationHandler(entry_points=[CommandHandler('set',
  set_ticker)], states={TICKER: ..., ORDER_SIZE: ..., PROFIT_PCT: ...},
  fallbacks=[CommandHandler('cancel', cancel)])\<close>: outside a conversation only \<open>/set\<close>
  is routed; inside one, a text goes to the handler of the current state and
  \<open>/cancel\<close> to \<open>cancel\<close>; any other update leaves the session as it is.
\<close>

definition conv_step :: "(string \<Rightarrow> float64 option) \<Rightarrow> session \<Rightarrow> update \<Rightarrow> py_error + session" where
  "conv_step fl s u =
     (case conv s of
        END \<Rightarrow>
          (case u of
             Command c \<Rightarrow> if c = ''set'' then Inr (s\<lparr>conv := set_ticker\<rparr>) else Inr s
           | Text msg \<Rightarrow> Inr s)
      | TICKER \<Rightarrow>
          (case u of
             Command c \<Rightarrow> if c = ''cancel'' then Inr (s\<lparr>conv := cancel\<rparr>) else Inr s
           | Text msg \<Rightarrow>
               (case ticker_received (udata s) msg of
                  (ud, st) \<Rightarrow> Inr (s\<lparr>conv := st, udata := ud\<rparr>)))
      | ORDER_SIZE \<Rightarrow>
          (case u of
             Command c \<Rightarrow> if c = ''cancel'' then Inr (s\<lparr>conv := cancel\<rparr>) else Inr s
           | Text msg \<Rightarrow>
               (case order_size_received fl (udata s) msg of
                  (ud, st) \<Rightarrow> Inr (s\<lparr>conv := st, udata := ud\<rparr>)))
      | PROFIT_PCT \<Rightarrow>
          (case u of
             Command c \<Rightarrow> if c = ''cancel'' then Inr (s\<lparr>conv := cancel\<rparr>) else Inr s
           | Text msg \<Rightarrow>
               (case profit_received fl (udata s) (store s) msg of
                  Inl e \<Rightarrow> Inl e
                | Inr (cfgs, st) \<Rightarrow> Inr (s\<lparr>conv := st, store := cfgs\<rparr>))))"

fun run :: "(string \<Rightarrow> float64 option) \<Rightarrow> session \<Rightarrow> update list \<Rightarrow> py_error + session" where
  "run fl s [] = Inr s"
| "run fl s (u # us) =
     (case conv_step fl s u of Inl e \<Rightarrow> Inl e | Inr s' \<Rightarrow> run fl s' us)"

text \<open>
  An update completes a session when it is the third answer, a text that converts to a
  number, given in state \<open>PROFIT_PCT\<close>. A run of updates is abandoned when none of its
  updates completes the session it meets.
\<close>

definition completes :: "(string \<Rightarrow> float64 option) \<Rightarrow> session \<Rightarrow> update \<Rightarrow> bool" where
  "completes fl s u =
     (case u of
        Command c \<Rightarrow> False
      | Text msg \<Rightarrow> conv s = PROFIT_PCT \<and> fl (strip msg) \<noteq> None)"

fun abandoned :: "(string \<Rightarrow> float64 option) \<Rightarrow> session \<Rightarrow> update list \<Rightarrow> bool" where
  "abandoned fl s [] = True"
| "abandoned fl s (u # us) =
     (\<not> completes fl s u \<and>
      (case conv_step fl s u of Inl e \<Rightarrow> True | Inr s' \<Rightarrow> abandoned fl s' us))"

text \<open>
  In state \<open>ORDER_SIZE\<close> the ticker has been stored, in state \<open>PROFIT_PCT\<close> the order
  size as well.
\<close>

definition session_ok :: "session \<Rightarrow> bool" where
  "session_ok s =
     (case conv s of
        END \<Rightarrow> True
      | TICKER \<Rightarrow> True
      | ORDER_SIZE \<Rightarrow> ud_ticker (udata s) \<noteq> None
      | PROFIT_PCT \<Rightarrow> ud_ticker (udata s) \<noteq> None \<and> ud_order_size (udata s) \<noteq> None)"

section \<open>Concrete inputs\<close>

definition one_config :: "string \<Rightarrow> float64 \<Rightarrow> float64 \<Rightarrow> configs" where
  "one_config ticker sz pct = [ticker \<mapsto> \<lparr>order_size = sz, min_profit = pct\<rparr>]"

definition quote_broker :: "string \<Rightarrow> float64 \<Rightarrow> float64 \<Rightarrow> float64 \<Rightarrow> broker" where
  "quote_broker funds l b a =
     \<lparr>accountValues = [\<lparr>tag = ''AvailableFunds'', currency = ''USD'', value_text = funds\<rparr>],
      positions = [],
      reqMktData = (\<lambda>t. \<lparr>last_t = l, bid = b, ask = a\<rparr>),
      placed = []\<rparr>"

definition position_broker :: "position_item \<Rightarrow> broker" where
  "position_broker p =
     \<lparr>accountValues = [],
      positions = [p],
      reqMktData = (\<lambda>t. \<lparr>last_t = NaN, bid = NaN, ask = NaN\<rparr>),
      placed = []\<rparr>"

definition no_usd_funds_broker :: broker where
  "no_usd_funds_broker =
     \<lparr>accountValues =
        [\<lparr>tag = ''AvailableFunds'', currency = ''EUR'', value_text = ''5000''\<rparr>,
         \<lparr>tag = ''NetLiquidation'', currency = ''USD'', value_text = ''7000''\<rparr>],
      positions = [],
      reqMktData = (\<lambda>t. \<lparr>last_t = Fin 15, bid = Fin 10, ask = Fin 12\<rparr>),
      placed = []\<rparr>"

definition signal :: "string \<Rightarrow> string \<Rightarrow> (string \<rightharpoonup> string)" where
  "signal tk act = [''ticker'' \<mapsto> tk, ''action'' \<mapsto> act]"

definition session_at :: "conv_state \<Rightarrow> string option \<Rightarrow> float64 option \<Rightarrow> session" where
  "session_at st tk sz =
     \<lparr>conv = st, udata = \<lparr>ud_ticker = tk, ud_order_size = sz\<rparr>, store = Map.empty\<rparr>"

section \<open>Evaluation on concrete inputs\<close>

lemma log2_up_step: "2 \<le> x \<Longrightarrow> log2_up x = 1 + log2_up (x / 2)"
  by (subst log2_up.simps) simp

lemma log2_up_stop: "x < 2 \<Longrightarrow> log2_up x = 0"
  by (subst log2_up.simps) simp

lemma log2_down_step: "x < 1 \<Longrightarrow> - 1022 < e \<Longrightarrow> log2_down e x = log2_down (e - 1) (2 * x)"
  by (subst log2_down.simps) simp

lemma log2_down_stop: "1 \<le> x \<or> e \<le> - 1022 \<Longrightarrow> log2_down e x = e"
  by (subst log2_down.simps) auto

lemmas round_defs = round64_def exponent_def pow2_def round_half_even_def Let_def
  log2_up_step log2_up_stop log2_down_step log2_down_stop

lemmas text_defs = float_lit_def unsigned_lit_def decimal_lit_def digit_val_def strip_def
  is_space_def upper_def upper_char_def

lemmas input_defs = one_config_def quote_broker_def position_broker_def signal_def
  get_str_def Position_def priced_position_def

lemmas path_defs = handle_buy_def handle_sell_def available_funds_def buy_price_def
  find_position_def pnl_pct_def py_truediv_def placeOrder_def getattr_def float_sub_def

text \<open>The numbers of the examples, as binary64 rounds them.\<close>

lemma round64_exact:
  "round64 0 = Fin 0" "round64 2 = Fin 2" "round64 3 = Fin 3" "round64 5 = Fin 5" "round64 11 = Fin 11"
  "round64 22 = Fin 22" "round64 25 = Fin 25" "round64 29 = Fin 29" "round64 30 = Fin 30"
  "round64 50 = Fin 50" "round64 100 = Fin 100" "round64 200 = Fin 200"
  "round64 250 = Fin 250" "round64 290 = Fin 290" "round64 500 = Fin 500"
  "round64 1000 = Fin 1000" "round64 1250 = Fin 1250" "round64 5000 = Fin 5000"
  "round64 7000 = Fin 7000" "round64 (1 / 2) = Fin (1 / 2)" "round64 (1 / 4) = Fin (1 / 4)"
  "round64 (5 / 2) = Fin (5 / 2)" "round64 (1999 / 2) = Fin (1999 / 2)"
  by (simp_all add: round_defs)

lemma round64_inexact:
  "round64 (4 / 5) = Fin (3602879701896397 / 4503599627370496)"
  "round64 (1000 / (3602879701896397 / 4503599627370496)) = Fin 1250"
  "round64 (1000 / 11) = Fin (3198579280802909 / 35184372088832)"
  "round64 (1000 / 333) = Fin (3381080801329201 / 1125899906842624)"
  "round64 (2 / 3) = Fin (6004799503160661 / 9007199254740992)"
  "round64 (200 / 3) = Fin (4691249611844267 / 70368744177664)"
  "round64 (29 / 100) = Fin (5224175567749775 / 18014398509481984)"
  "round64 (5224175567749775 / 18014398509481984 * 100)
     = Fin (8162774324609023 / 281474976710656)"
  "round64 (3 / 100) = Fin (1080863910568919 / 36028797018963968)"
  "round64 (1080863910568919 / 36028797018963968 * 100) = Fin 3"
  by (simp_all add: round_defs)

text \<open>Spot checks of the rounding: an inexact tenth, two ties, overflow.\<close>

lemma round64_checks:
  "round64 (1 / 10) = Fin (3602879701896397 / 36028797018963968)"
  "round64 9007199254740993 = Fin 9007199254740992"
  "round64 9007199254740995 = Fin 9007199254740996"
  "round64 (2 ^ 1024) = PInf"
  by (simp_all add: round_defs)

lemma float_lit_values:
  "float_lit ''5000'' = Some (Fin 5000)"
  "float_lit ''7000'' = Some (Fin 7000)"
  "float_lit ''999.5'' = Some (Fin (1999 / 2))"
  "float_lit ''1000'' = Some (Fin 1000)"
  "float_lit ''2.5'' = Some (Fin (5 / 2))"
  "float_lit ''-5'' = Some (Fin (- 5))"
  "float_lit ''0.8'' = Some (Fin (3602879701896397 / 4503599627370496))"
  "float_lit ''abc'' = None"
  "float_lit '' nan '' = Some NaN"
  "float_lit ''-inf'' = Some NInf"
  by (simp_all add: text_defs round64_exact round64_inexact)

lemma upper_values:
  "upper ''aapl'' = ''AAPL''" "upper ''AAPL'' = ''AAPL''" "upper ''msft'' = ''MSFT''"
  "upper ''buy'' = ''BUY''" "upper ''BUY'' = ''BUY''" "upper ''sell'' = ''SELL''"
  "upper ''SELL'' = ''SELL''" "upper ''hold'' = ''HOLD''"
  by (simp_all add: upper_def upper_char_def)

lemma strip_values:
  "strip ''aapl'' = ''aapl''" "strip '' aapl '' = ''aapl''" "strip ''1000'' = ''1000''"
  "strip ''2.5'' = ''2.5''" "strip ''-5'' = ''-5''" "strip ''abc'' = ''abc''"
  by (simp_all add: strip_def is_space_def)

section \<open>Facts about floats\<close>


lemma float_add_commute: "float_add a b = float_add b a"
  by (cases a; cases b) (simp_all add: add.commute)

lemma pow2_pos: "0 < pow2 e"
  by (simp add: pow2_def)

lemma round_half_even_nonneg: "0 \<le> x \<Longrightarrow> 0 \<le> round_half_even x"
  by (simp add: round_half_even_def Let_def)

lemma round64_nonneg:
  assumes "0 < x" and "round64 x = Fin y"
  shows "0 \<le> y"
proof -
  let ?u = "pow2 (exponent x - 52)"
  have u: "0 < ?u" by (rule pow2_pos)
  then have "0 \<le> x / ?u" using assms(1) by simp
  then have "0 \<le> round_half_even (x / ?u)" by (rule round_half_even_nonneg)
  then have "0 \<le> of_int (round_half_even (x / ?u)) * ?u"
    using u by simp
  moreover have "y = of_int (round_half_even (x / ?u)) * ?u"
    using assms by (simp add: round64_def Let_def split: if_splits)
  ultimately show ?thesis by simp
qed

section \<open>Facts about the buy path\<close>

lemma available_funds_absent:
  assumes "\<forall>v \<in> set avs. \<not> (tag v = ''AvailableFunds'' \<and> currency v = ''USD'')"
  shows "available_funds fl avs = Inr (Fin 0)"
proof -
  have "find (\<lambda>v. tag v = ''AvailableFunds'' \<and> currency v = ''USD'') avs = None"
    using assms by (simp add: find_None_iff)
  then show ?thesis by (simp add: available_funds_def)
qed

lemma handle_buy_unconfigured: "cfgs t = None \<Longrightarrow> handle_buy fl cfgs ib t = Inr ib"
  by (simp add: handle_buy_def)

lemma handle_buy_funds_error:
  "cfgs t = Some cfg \<Longrightarrow> available_funds fl (accountValues ib) = Inl e
     \<Longrightarrow> handle_buy fl cfgs ib t = Inl e"
  by (simp add: handle_buy_def)

lemma handle_buy_short_funds:
  "cfgs t = Some cfg \<Longrightarrow> available_funds fl (accountValues ib) = Inr a
     \<Longrightarrow> float_lt a (order_size cfg) \<Longrightarrow> handle_buy fl cfgs ib t = Inr ib"
  by (simp add: handle_buy_def)


lemma handle_buy_quotient:
  "cfgs t = Some cfg \<Longrightarrow> available_funds fl (accountValues ib) = Inr a
     \<Longrightarrow> \<not> float_lt a (order_size cfg) \<Longrightarrow> buy_price (reqMktData ib t) = p \<Longrightarrow> p \<noteq> Fin 0
     \<Longrightarrow> handle_buy fl cfgs ib t =
          (case py_int (float_div (order_size cfg) p) of
             Inl e \<Rightarrow> Inl e
           | Inr qty \<Rightarrow>
               if qty \<le> 0 then Inr ib
               else Inr (placeOrder ib
                      \<lparr>contract_symbol = t, action = ''BUY'',
                       totalQuantity = PyInt qty, lmtPrice = p\<rparr>))"
  by (simp add: handle_buy_def py_truediv_def Let_def)

lemma handle_buy_orders:
  assumes "handle_buy fl cfgs ib t = Inr ib'"
  shows "ib' = ib \<or>
         (\<exists>q. ib' = placeOrder ib
                 \<lparr>contract_symbol = t, action = ''BUY'', totalQuantity = q,
                  lmtPrice = buy_price (reqMktData ib t)\<rparr>)"
  using assms
  by (auto simp: handle_buy_def py_truediv_def Let_def
           split: option.splits sum.splits if_splits)

section \<open>Facts about the sell path\<close>

lemma find_position_open:
  "find_position ps t = Some p \<Longrightarrow> float_lt (Fin 0) (position p) \<and> upper (symbol p) = t"
  by (auto simp: find_position_def find_Some_iff)

lemma Position_attrs:
  "getattr (Position acct sy pos cost) ''marketPrice'' = Inl AttributeError"
  "getattr (Position acct sy pos cost) ''averageCost'' = Inl AttributeError"
  "getattr (Position acct sy pos cost) ''avgCost'' = Inr cost"
  by (simp_all add: getattr_def Position_def)

lemma priced_position_attrs:
  "getattr (priced_position sy pos avg mkt) ''marketPrice'' = Inr mkt"
  "getattr (priced_position sy pos avg mkt) ''averageCost'' = Inr avg"
  "position (priced_position sy pos avg mkt) = pos"
  "symbol (priced_position sy pos avg mkt) = sy"
  by (simp_all add: getattr_def priced_position_def)

lemma pnl_pct_zero:
  "float_mul avg_cost pos = Fin 0 \<Longrightarrow> pnl_pct market_price avg_cost pos = Inl ZeroDivisionError"
  by (simp add: pnl_pct_def py_truediv_def Let_def)


lemma handle_sell_unconfigured: "cfgs t = None \<Longrightarrow> handle_sell cfgs ib t = Inr ib"
  by (simp add: handle_sell_def)


lemma handle_sell_no_market_price:
  "cfgs t = Some cfg \<Longrightarrow> find_position (positions ib) t = Some p
     \<Longrightarrow> getattr p ''marketPrice'' = Inl e \<Longrightarrow> handle_sell cfgs ib t = Inl e"
  by (simp add: handle_sell_def)

lemma handle_sell_no_average_cost:
  "cfgs t = Some cfg \<Longrightarrow> find_position (positions ib) t = Some p
     \<Longrightarrow> getattr p ''marketPrice'' = Inr m \<Longrightarrow> getattr p ''averageCost'' = Inl e
     \<Longrightarrow> handle_sell cfgs ib t = Inl e"
  by (simp add: handle_sell_def)

lemma handle_sell_found:
  "cfgs t = Some cfg \<Longrightarrow> find_position (positions ib) t = Some p
     \<Longrightarrow> getattr p ''marketPrice'' = Inr m \<Longrightarrow> getattr p ''averageCost'' = Inr a
     \<Longrightarrow> pnl_pct m a (position p) = Inr pct
     \<Longrightarrow> handle_sell cfgs ib t =
          (if float_lt pct (min_profit cfg) then Inr ib
           else Inr (placeOrder ib
                  \<lparr>contract_symbol = t, action = ''SELL'',
                   totalQuantity = PyFloat (position p), lmtPrice = m\<rparr>))"
  by (simp add: handle_sell_def)


section \<open>Facts about the webhook\<close>




text \<open>Runs of the two paths on the concrete inputs.\<close>

lemma quote_broker_funds:
  "available_funds float_lit (accountValues (quote_broker ''5000'' l b a)) = Inr (Fin 5000)"
  "available_funds float_lit (accountValues (quote_broker ''999.5'' l b a)) = Inr (Fin (1999 / 2))"
  by (simp_all add: quote_broker_def available_funds_def float_lit_values)

lemma quote_broker_price:
  "buy_price (reqMktData (quote_broker funds (Fin 0) (Fin 10) (Fin 12)) t) = Fin 11"
  "buy_price (reqMktData (quote_broker funds (Fin 15) (Fin 10) (Fin 12)) t) = Fin 15"
  "buy_price (reqMktData (quote_broker funds (Fin 333) (Fin 10) (Fin 12)) t) = Fin 333"
  "buy_price (reqMktData (quote_broker funds (Fin 150) (Fin 10) (Fin 12)) t) = Fin 150"
  "buy_price (reqMktData (quote_broker funds (Fin 0) (Fin 0) (Fin 0)) t) = Fin 0"
  by (simp_all add: quote_broker_def buy_price_def round64_exact)

lemma one_config_lookup:
  "one_config t sz pct t = Some \<lparr>order_size = sz, min_profit = pct\<rparr>"
  by (simp add: one_config_def)

lemma buy_1000_at_11:
  "handle_buy float_lit (one_config ''AAPL'' (Fin 1000) (Fin (5 / 2)))
       (quote_broker ''5000'' (Fin 0) (Fin 10) (Fin 12)) ''AAPL''
     = Inr (placeOrder (quote_broker ''5000'' (Fin 0) (Fin 10) (Fin 12))
             \<lparr>contract_symbol = ''AAPL'', action = ''BUY'', totalQuantity = PyInt 90,
              lmtPrice = Fin 11\<rparr>)"
  using handle_buy_quotient
          [of "one_config ''AAPL'' (Fin 1000) (Fin (5 / 2))" "''AAPL''"
              "\<lparr>order_size = Fin 1000, min_profit = Fin (5 / 2)\<rparr>" float_lit
              "quote_broker ''5000'' (Fin 0) (Fin 10) (Fin 12)" "Fin 5000" "Fin 11"]
  by (simp add: one_config_lookup quote_broker_funds quote_broker_price round_defs)

section \<open>Claims about the signal path\<close>

text \<open>
  C6. A symbol without an entry in \<open>configs\<close>: the buy path and the sell path return
  normally and leave the connection as it was, so \<open>placeOrder\<close> is not called, and the
  webhook answers with the acknowledgment for a BUY as for a SELL signal.
\<close>

theorem unconfigured_symbol_noop:
  "cfgs ticker = None \<longrightarrow>
     handle_buy fl cfgs ib ticker = Inr ib \<and>
     handle_sell cfgs ib ticker = Inr ib \<and>
     (upper (get_str data ''ticker'') = ticker \<longrightarrow>
        webhook fl cfgs ib data = Inr (processed, ib))"
proof (intro impI conjI)
  assume none: "cfgs ticker = None"
  show buy: "handle_buy fl cfgs ib ticker = Inr ib"
    using none by (rule handle_buy_unconfigured)
  show sell: "handle_sell cfgs ib ticker = Inr ib"
    using none by (rule handle_sell_unconfigured)
  assume tk: "upper (get_str data ''ticker'') = ticker"
  show "webhook fl cfgs ib data = Inr (processed, ib)"
    using buy sell tk by (simp add: webhook_def Let_def)
qed

theorem unconfigured_symbol_noop_witness:
  "one_config ''AAPL'' (Fin 1000) (Fin (5 / 2)) ''MSFT'' = None \<and>
   handle_buy float_lit (one_config ''AAPL'' (Fin 1000) (Fin (5 / 2)))
       (quote_broker ''5000'' (Fin 15) (Fin 10) (Fin 12)) ''MSFT''
     = Inr (quote_broker ''5000'' (Fin 15) (Fin 10) (Fin 12)) \<and>
   handle_sell (one_config ''AAPL'' (Fin 1000) (Fin (5 / 2)))
       (quote_broker ''5000'' (Fin 15) (Fin 10) (Fin 12)) ''MSFT''
     = Inr (quote_broker ''5000'' (Fin 15) (Fin 10) (Fin 12)) \<and>
   webhook float_lit (one_config ''AAPL'' (Fin 1000) (Fin (5 / 2)))
       (quote_broker ''5000'' (Fin 15) (Fin 10) (Fin 12)) (signal ''msft'' ''buy'')
     = Inr (processed, quote_broker ''5000'' (Fin 15) (Fin 10) (Fin 12))"
  using unconfigured_symbol_noop
          [of "one_config ''AAPL'' (Fin 1000) (Fin (5 / 2))" "''MSFT''" float_lit
              "quote_broker ''5000'' (Fin 15) (Fin 10) (Fin 12)" "signal ''msft'' ''buy''"]
  by (simp add: one_config_def signal_def get_str_def upper_values)

text \<open>
  C5. The funds gate of the buy path: when the available USD funds reported by the
  connection are strictly below the configured order size, the buy path returns with
  the connection unchanged; no order, of any quantity, is placed.
\<close>

theorem insufficient_funds_no_order:
  "cfgs ticker = Some cfg \<Longrightarrow> available_funds fl (accountValues ib) = Inr available
     \<Longrightarrow> float_lt available (order_size cfg)
     \<Longrightarrow> handle_buy fl cfgs ib ticker = Inr ib \<and>
         orders_after ib (handle_buy fl cfgs ib ticker) = placed ib"
  by (simp add: handle_buy_short_funds orders_after_def)

theorem insufficient_funds_no_order_witness:
  "one_config ''AAPL'' (Fin 1000) (Fin (5 / 2)) ''AAPL''
     = Some \<lparr>order_size = Fin 1000, min_profit = Fin (5 / 2)\<rparr> \<and>
   available_funds float_lit (accountValues (quote_broker ''999.5'' (Fin 15) (Fin 10) (Fin 12)))
     = Inr (Fin (1999 / 2)) \<and>
   float_lt (Fin (1999 / 2)) (order_size \<lparr>order_size = Fin 1000, min_profit = Fin (5 / 2)\<rparr>) \<and>
   handle_buy float_lit (one_config ''AAPL'' (Fin 1000) (Fin (5 / 2)))
       (quote_broker ''999.5'' (Fin 15) (Fin 10) (Fin 12)) ''AAPL''
     = Inr (quote_broker ''999.5'' (Fin 15) (Fin 10) (Fin 12))"
proof -
  have c: "one_config ''AAPL'' (Fin 1000) (Fin (5 / 2)) ''AAPL''
             = Some \<lparr>order_size = Fin 1000, min_profit = Fin (5 / 2)\<rparr>"
    by (rule one_config_lookup)
  have a: "available_funds float_lit
             (accountValues (quote_broker ''999.5'' (Fin 15) (Fin 10) (Fin 12)))
             = Inr (Fin (1999 / 2))"
    by (rule quote_broker_funds)
  have l: "float_lt (Fin (1999 / 2))
             (order_size \<lparr>order_size = Fin 1000, min_profit = Fin (5 / 2)\<rparr>)"
    by simp
  show ?thesis
    using insufficient_funds_no_order
            [of "one_config ''AAPL'' (Fin 1000) (Fin (5 / 2))" "''AAPL''"
                "\<lparr>order_size = Fin 1000, min_profit = Fin (5 / 2)\<rparr>" float_lit
                "quote_broker ''999.5'' (Fin 15) (Fin 10) (Fin 12)" "Fin (1999 / 2)"] c a l
    by simp
qed

text \<open>
  C10. Without an account value tagged \<open>AvailableFunds\<close> in \<open>USD\<close> the available funds
  are taken to be \<open>0.0\<close>, and then a symbol configured with a positive order size gets
  no order from the buy path.
\<close>

theorem missing_funds_entry_default:
  "(\<forall>v \<in> set (accountValues ib). \<not> (tag v = ''AvailableFunds'' \<and> currency v = ''USD''))
     \<Longrightarrow> available_funds fl (accountValues ib) = Inr (Fin 0) \<and>
         (cfgs ticker = Some cfg \<longrightarrow> float_lt (Fin 0) (order_size cfg) \<longrightarrow>
            handle_buy fl cfgs ib ticker = Inr ib)"
  by (simp add: available_funds_absent handle_buy_short_funds)

theorem missing_funds_entry_default_witness:
  "filter (\<lambda>v. tag v = ''AvailableFunds'' \<and> currency v = ''USD'')
     (accountValues no_usd_funds_broker) = [] \<and>
   available_funds float_lit (accountValues no_usd_funds_broker) = Inr (Fin 0) \<and>
   handle_buy float_lit (one_config ''AAPL'' (Fin 1000) (Fin (5 / 2))) no_usd_funds_broker ''AAPL''
     = Inr no_usd_funds_broker"
proof -
  have h: "\<forall>v \<in> set (accountValues no_usd_funds_broker).
             \<not> (tag v = ''AvailableFunds'' \<and> currency v = ''USD'')"
    by (simp add: no_usd_funds_broker_def)
  have f: "filter (\<lambda>v. tag v = ''AvailableFunds'' \<and> currency v = ''USD'')
             (accountValues no_usd_funds_broker) = []"
    by (simp add: no_usd_funds_broker_def)
  show ?thesis
    using missing_funds_entry_default
            [OF h, of float_lit "one_config ''AAPL'' (Fin 1000) (Fin (5 / 2))" "''AAPL''"
               "\<lparr>order_size = Fin 1000, min_profit = Fin (5 / 2)\<rparr>"] f
    by (simp add: one_config_def)
qed

text \<open>
  C3. The price of the buy path is the last traded price when that is strictly
  positive, and the midpoint of bid and ask otherwise: \<open>last = 0, bid = 10, ask = 12\<close>
  gives 11 and \<open>last = 15, bid = 10, ask = 12\<close> gives 15. An order placed by the buy
  path has this price as its limit price.
\<close>

theorem buy_price_selection:
  "(float_lt (Fin 0) (last_t td) \<longrightarrow> buy_price td = last_t td) \<and>
   (\<not> float_lt (Fin 0) (last_t td) \<longrightarrow>
      buy_price td = float_div (float_add (bid td) (ask td)) (Fin 2)) \<and>
   buy_price \<lparr>last_t = Fin 0, bid = Fin 10, ask = Fin 12\<rparr> = Fin 11 \<and>
   buy_price \<lparr>last_t = Fin 15, bid = Fin 10, ask = Fin 12\<rparr> = Fin 15 \<and>
   (handle_buy fl cfgs ib ticker = Inr ib' \<longrightarrow>
      placed ib' = placed ib \<or>
      (\<exists>q. placed ib' = placed ib @
              [\<lparr>contract_symbol = ticker, action = ''BUY'', totalQuantity = q,
                lmtPrice = buy_price (reqMktData ib ticker)\<rparr>]))"
proof (intro conjI impI)
  assume "handle_buy fl cfgs ib ticker = Inr ib'"
  from handle_buy_orders [OF this]
  show "placed ib' = placed ib \<or>
      (\<exists>q. placed ib' = placed ib @
              [\<lparr>contract_symbol = ticker, action = ''BUY'', totalQuantity = q,
                lmtPrice = buy_price (reqMktData ib ticker)\<rparr>])"
    by (auto simp: placeOrder_def)
next
  assume "\<not> float_lt (Fin 0) (last_t td)"
  then show "buy_price td = float_div (float_add (bid td) (ask td)) (Fin 2)"
    by (simp add: buy_price_def float_add_commute)
qed (simp_all add: buy_price_def round64_exact)

theorem buy_price_selection_witness:
  "buy_price \<lparr>last_t = Fin 333, bid = Fin 10, ask = Fin 12\<rparr> = Fin 333 \<and>
   buy_price \<lparr>last_t = Fin (- 1), bid = Fin 10, ask = Fin 12\<rparr> = Fin 11 \<and>
   buy_price \<lparr>last_t = NaN, bid = Fin 10, ask = Fin 12\<rparr> = Fin 11 \<and>
   handle_buy float_lit (one_config ''AAPL'' (Fin 1000) (Fin (5 / 2)))
       (quote_broker ''5000'' (Fin 0) (Fin 10) (Fin 12)) ''AAPL''
     = Inr (placeOrder (quote_broker ''5000'' (Fin 0) (Fin 10) (Fin 12))
             \<lparr>contract_symbol = ''AAPL'', action = ''BUY'', totalQuantity = PyInt 90,
              lmtPrice = Fin 11\<rparr>) \<and>
   (\<exists>q. placed (placeOrder (quote_broker ''5000'' (Fin 0) (Fin 10) (Fin 12))
             \<lparr>contract_symbol = ''AAPL'', action = ''BUY'', totalQuantity = PyInt 90,
              lmtPrice = Fin 11\<rparr>)
          = placed (quote_broker ''5000'' (Fin 0) (Fin 10) (Fin 12)) @
              [\<lparr>contract_symbol = ''AAPL'', action = ''BUY'', totalQuantity = q,
                lmtPrice =
                  buy_price (reqMktData (quote_broker ''5000'' (Fin 0) (Fin 10) (Fin 12)) ''AAPL'')\<rparr>])"
proof -
  have changed: "placed (placeOrder (quote_broker ''5000'' (Fin 0) (Fin 10) (Fin 12))
             \<lparr>contract_symbol = ''AAPL'', action = ''BUY'', totalQuantity = PyInt 90,
              lmtPrice = Fin 11\<rparr>)
          \<noteq> placed (quote_broker ''5000'' (Fin 0) (Fin 10) (Fin 12))"
    by (simp add: placeOrder_def)
  show ?thesis
    using buy_price_selection [of "\<lparr>last_t = Fin 333, bid = Fin 10, ask = Fin 12\<rparr>" float_lit
            "one_config ''AAPL'' (Fin 1000) (Fin (5 / 2))"
            "quote_broker ''5000'' (Fin 0) (Fin 10) (Fin 12)" "''AAPL''"
            "placeOrder (quote_broker ''5000'' (Fin 0) (Fin 10) (Fin 12))
             \<lparr>contract_symbol = ''AAPL'', action = ''BUY'', totalQuantity = PyInt 90,
              lmtPrice = Fin 11\<rparr>"]
          buy_price_selection [of "\<lparr>last_t = Fin (- 1), bid = Fin 10, ask = Fin 12\<rparr>" float_lit
            "one_config ''AAPL'' (Fin 1000) (Fin (5 / 2))"
            "quote_broker ''5000'' (Fin 0) (Fin 10) (Fin 12)" "''AAPL''"
            "quote_broker ''5000'' (Fin 0) (Fin 10) (Fin 12)"]
          buy_price_selection [of "\<lparr>last_t = NaN, bid = Fin 10, ask = Fin 12\<rparr>" float_lit
            "one_config ''AAPL'' (Fin 1000) (Fin (5 / 2))"
            "quote_broker ''5000'' (Fin 0) (Fin 10) (Fin 12)" "''AAPL''"
            "quote_broker ''5000'' (Fin 0) (Fin 10) (Fin 12)"]
          buy_1000_at_11 changed
    by (simp add: round64_exact)
qed

text \<open>
  C4, as the code has it. With a positive order size and a positive price whose
  binary64 quotient is finite, the quantity of the buy path is the floor of that
  quotient, the quotient as the float division rounds it; a quantity that is not
  positive places no order. An order size of 1000 at price 333 buys 3; an order size
  of 100 at price 150 gives quantity 0 and no order.
\<close>

theorem buy_quantity_floor:
  "(cfgs ticker = Some cfg \<and> available_funds fl (accountValues ib) = Inr available \<and>
    \<not> float_lt available (order_size cfg) \<and> order_size cfg = Fin s \<and> 0 < s \<and>
    buy_price (reqMktData ib ticker) = Fin p \<and> 0 < p \<and> round64 (s / p) = Fin q \<longrightarrow>
      0 \<le> q \<and>
      py_truediv (order_size cfg) (buy_price (reqMktData ib ticker)) = Inr (Fin q) \<and>
      py_int (Fin q) = Inr \<lfloor>q\<rfloor> \<and>
      handle_buy fl cfgs ib ticker =
        (if \<lfloor>q\<rfloor> \<le> 0 then Inr ib
         else Inr (placeOrder ib
                \<lparr>contract_symbol = ticker, action = ''BUY'',
                 totalQuantity = PyInt \<lfloor>q\<rfloor>, lmtPrice = Fin p\<rparr>))) \<and>
   handle_buy float_lit (one_config ''AAPL'' (Fin 1000) (Fin (5 / 2)))
       (quote_broker ''5000'' (Fin 333) (Fin 10) (Fin 12)) ''AAPL''
     = Inr (placeOrder (quote_broker ''5000'' (Fin 333) (Fin 10) (Fin 12))
             \<lparr>contract_symbol = ''AAPL'', action = ''BUY'', totalQuantity = PyInt 3,
              lmtPrice = Fin 333\<rparr>) \<and>
   handle_buy float_lit (one_config ''AAPL'' (Fin 100) (Fin (5 / 2)))
       (quote_broker ''5000'' (Fin 150) (Fin 10) (Fin 12)) ''AAPL''
     = Inr (quote_broker ''5000'' (Fin 150) (Fin 10) (Fin 12))"
proof (intro conjI impI)
  assume h: "cfgs ticker = Some cfg \<and> available_funds fl (accountValues ib) = Inr available \<and>
    \<not> float_lt available (order_size cfg) \<and> order_size cfg = Fin s \<and> 0 < s \<and>
    buy_price (reqMktData ib ticker) = Fin p \<and> 0 < p \<and> round64 (s / p) = Fin q"
  have pos: "0 < s / p" using h by simp
  show q: "0 \<le> q"
    using pos h round64_nonneg [of "s / p" q] by blast
  show "py_truediv (order_size cfg) (buy_price (reqMktData ib ticker)) = Inr (Fin q)"
    using h by (simp add: py_truediv_def)
  show "py_int (Fin q) = Inr \<lfloor>q\<rfloor>"
    using q by simp
  have "handle_buy fl cfgs ib ticker =
          (case py_int (float_div (order_size cfg) (Fin p)) of
             Inl e \<Rightarrow> Inl e
           | Inr qty \<Rightarrow>
               if qty \<le> 0 then Inr ib
               else Inr (placeOrder ib
                      \<lparr>contract_symbol = ticker, action = ''BUY'',
                       totalQuantity = PyInt qty, lmtPrice = Fin p\<rparr>))"
    using h handle_buy_quotient [of cfgs ticker cfg fl ib available "Fin p"] by auto
  moreover have "float_div (order_size cfg) (Fin p) = Fin q"
    using h by simp
  ultimately show "handle_buy fl cfgs ib ticker =
        (if \<lfloor>q\<rfloor> \<le> 0 then Inr ib
         else Inr (placeOrder ib
                \<lparr>contract_symbol = ticker, action = ''BUY'',
                 totalQuantity = PyInt \<lfloor>q\<rfloor>, lmtPrice = Fin p\<rparr>))"
    using q by simp
next
  show "handle_buy float_lit (one_config ''AAPL'' (Fin 1000) (Fin (5 / 2)))
       (quote_broker ''5000'' (Fin 333) (Fin 10) (Fin 12)) ''AAPL''
     = Inr (placeOrder (quote_broker ''5000'' (Fin 333) (Fin 10) (Fin 12))
             \<lparr>contract_symbol = ''AAPL'', action = ''BUY'', totalQuantity = PyInt 3,
              lmtPrice = Fin 333\<rparr>)"
    using handle_buy_quotient
            [of "one_config ''AAPL'' (Fin 1000) (Fin (5 / 2))" "''AAPL''"
                "\<lparr>order_size = Fin 1000, min_profit = Fin (5 / 2)\<rparr>" float_lit
                "quote_broker ''5000'' (Fin 333) (Fin 10) (Fin 12)" "Fin 5000" "Fin 333"]
    by (simp add: one_config_lookup quote_broker_funds quote_broker_price round_defs)
next
  show "handle_buy float_lit (one_config ''AAPL'' (Fin 100) (Fin (5 / 2)))
       (quote_broker ''5000'' (Fin 150) (Fin 10) (Fin 12)) ''AAPL''
     = Inr (quote_broker ''5000'' (Fin 150) (Fin 10) (Fin 12))"
    using handle_buy_quotient
            [of "one_config ''AAPL'' (Fin 100) (Fin (5 / 2))" "''AAPL''"
                "\<lparr>order_size = Fin 100, min_profit = Fin (5 / 2)\<rparr>" float_lit
                "quote_broker ''5000'' (Fin 150) (Fin 10) (Fin 12)" "Fin 5000" "Fin 150"]
    by (simp add: one_config_lookup quote_broker_funds quote_broker_price round_defs)
qed

theorem buy_quantity_floor_witness:
  "round64 (1000 / 11) = Fin (3198579280802909 / 35184372088832) \<and>
   py_int (Fin (3198579280802909 / 35184372088832)) = Inr 90 \<and>
   handle_buy float_lit (one_config ''AAPL'' (Fin 1000) (Fin (5 / 2)))
       (quote_broker ''5000'' (Fin 0) (Fin 10) (Fin 12)) ''AAPL''
     = Inr (placeOrder (quote_broker ''5000'' (Fin 0) (Fin 10) (Fin 12))
             \<lparr>contract_symbol = ''AAPL'', action = ''BUY'', totalQuantity = PyInt 90,
              lmtPrice = Fin 11\<rparr>)"
proof -
  have fl: "\<lfloor>3198579280802909 / 35184372088832 :: real\<rfloor> = 90" by simp
  show ?thesis
    using buy_quantity_floor
            [of "one_config ''AAPL'' (Fin 1000) (Fin (5 / 2))" "''AAPL''"
                "\<lparr>order_size = Fin 1000, min_profit = Fin (5 / 2)\<rparr>" float_lit
                "quote_broker ''5000'' (Fin 0) (Fin 10) (Fin 12)" "Fin 5000" 1000 11
                "3198579280802909 / 35184372088832"]
          fl
    by (simp add: one_config_lookup quote_broker_funds quote_broker_price round_defs)
qed

text \<open>
  C4, as stated, fails. The text \<open>0.8\<close> is the float
  \<open>3602879701896397 / 4503599627370496\<close>, a little above eight tenths. An order size
  of 1000 at that price buys 1250: the exact quotient is below 1250, its floor is 1249,
  the float division rounds it up to 1250, and 1250 shares cost more than 1000.
\<close>

theorem buy_quantity_counterexample:
  "float_lit ''0.8'' = Some (Fin (3602879701896397 / 4503599627370496)) \<and>
   handle_buy float_lit (one_config ''AAPL'' (Fin 1000) (Fin (5 / 2)))
       (quote_broker ''5000'' (Fin (3602879701896397 / 4503599627370496)) (Fin 10) (Fin 12))
       ''AAPL''
     = Inr (placeOrder
             (quote_broker ''5000'' (Fin (3602879701896397 / 4503599627370496)) (Fin 10) (Fin 12))
             \<lparr>contract_symbol = ''AAPL'', action = ''BUY'', totalQuantity = PyInt 1250,
              lmtPrice = Fin (3602879701896397 / 4503599627370496)\<rparr>) \<and>
   \<lfloor>1000 / (3602879701896397 / 4503599627370496) :: real\<rfloor> = 1249 \<and>
   (1000 :: real) < 1250 * (3602879701896397 / 4503599627370496)"
proof -
  have p: "buy_price (reqMktData
             (quote_broker ''5000'' (Fin (3602879701896397 / 4503599627370496)) (Fin 10) (Fin 12))
             ''AAPL'') = Fin (3602879701896397 / 4503599627370496)"
    by (simp add: quote_broker_def buy_price_def)
  have run: "handle_buy float_lit (one_config ''AAPL'' (Fin 1000) (Fin (5 / 2)))
       (quote_broker ''5000'' (Fin (3602879701896397 / 4503599627370496)) (Fin 10) (Fin 12))
       ''AAPL''
     = Inr (placeOrder
             (quote_broker ''5000'' (Fin (3602879701896397 / 4503599627370496)) (Fin 10) (Fin 12))
             \<lparr>contract_symbol = ''AAPL'', action = ''BUY'', totalQuantity = PyInt 1250,
              lmtPrice = Fin (3602879701896397 / 4503599627370496)\<rparr>)"
    using handle_buy_quotient
            [of "one_config ''AAPL'' (Fin 1000) (Fin (5 / 2))" "''AAPL''"
                "\<lparr>order_size = Fin 1000, min_profit = Fin (5 / 2)\<rparr>" float_lit
                "quote_broker ''5000'' (Fin (3602879701896397 / 4503599627370496)) (Fin 10) (Fin 12)"
                "Fin 5000" "Fin (3602879701896397 / 4503599627370496)"]
    by (simp add: one_config_lookup quote_broker_funds p round_defs)
  show ?thesis
    using run by (simp add: float_lit_values)
qed

section \<open>Claims about the sell path\<close>

lemma priced_position_found:
  "float_lt (Fin 0) pos \<Longrightarrow>
   find_position (positions (position_broker (priced_position ''AAPL'' pos avg mkt))) ''AAPL''
     = Some (priced_position ''AAPL'' pos avg mkt)"
  by (simp add: find_position_def position_broker_def priced_position_def upper_values)

lemma Position_found:
  "float_lt (Fin 0) pos \<Longrightarrow>
   find_position (positions (position_broker (Position acct ''AAPL'' pos cost))) ''AAPL''
     = Some (Position acct ''AAPL'' pos cost)"
  by (simp add: find_position_def position_broker_def Position_def upper_values)

lemma pnl_pct_examples:
  "pnl_pct (Fin 103) (Fin 100) (Fin 10) = Inr (Fin 3)"
  "pnl_pct (Fin 150) (Fin 100) (Fin 10) = Inr (Fin 50)"
  "pnl_pct (Fin 125) (Fin 100) (Fin 10) = Inr (Fin 25)"
  "pnl_pct (Fin 129) (Fin 100) (Fin 10) = Inr (Fin (8162774324609023 / 281474976710656))"
  "pnl_pct (Fin 5) (Fin 0) (Fin 10) = Inl ZeroDivisionError"
  by (simp_all add: pnl_pct_def py_truediv_def float_sub_def round_defs)

text \<open>
  What the sell path does with an entry that carries both attributes: at or above the
  minimum it places one SELL order for the whole position at the market price. A
  position of 10 at average cost 100 and market price 103 has profit percentage 3, and
  with a minimum of 2.5 the order is for 10 at 103.
\<close>

lemma handle_sell_meets_threshold:
  assumes "cfgs t = Some cfg" and "find_position (positions ib) t = Some p"
    and "getattr p ''marketPrice'' = Inr m" and "getattr p ''averageCost'' = Inr a"
    and "pnl_pct m a (position p) = Inr pct" and "\<not> float_lt pct (min_profit cfg)"
  shows "handle_sell cfgs ib t =
           Inr (placeOrder ib
                 \<lparr>contract_symbol = t, action = ''SELL'',
                  totalQuantity = PyFloat (position p), lmtPrice = m\<rparr>)"
  using assms handle_sell_found [of cfgs t cfg ib p m a pct] by simp

lemma sell_10_at_103:
  "handle_sell (one_config ''AAPL'' (Fin 1000) (Fin (5 / 2)))
       (position_broker (priced_position ''AAPL'' (Fin 10) (Fin 100) (Fin 103))) ''AAPL''
     = Inr (placeOrder (position_broker (priced_position ''AAPL'' (Fin 10) (Fin 100) (Fin 103)))
             \<lparr>contract_symbol = ''AAPL'', action = ''SELL'', totalQuantity = PyFloat (Fin 10),
              lmtPrice = Fin 103\<rparr>)"
  using handle_sell_meets_threshold
          [of "one_config ''AAPL'' (Fin 1000) (Fin (5 / 2))" "''AAPL''"
              "\<lparr>order_size = Fin 1000, min_profit = Fin (5 / 2)\<rparr>"
              "position_broker (priced_position ''AAPL'' (Fin 10) (Fin 100) (Fin 103))"
              "priced_position ''AAPL'' (Fin 10) (Fin 100) (Fin 103)" "Fin 103" "Fin 100" "Fin 3"]
  by (simp add: one_config_lookup priced_position_found priced_position_attrs pnl_pct_examples)

text \<open>
  C7. The claim describes what \<open>handle_sell\<close> is written to do, and the code does not
  do it: the entries of \<open>ib.positions()\<close> are \<open>Position\<close> tuples, which have no
  attribute \<open>marketPrice\<close>, so for every configured symbol with an open position the
  read \<open>position.marketPrice\<close> raises \<open>AttributeError\<close> and no order is placed. A
  position of 10 at average cost 100 with a minimum of 2.5 gets the exception instead
  of the sell order for 10.
\<close>

theorem sell_path_attribute_error:
  "(cfgs ticker = Some cfg \<and> find_position (positions ib) ticker = Some p \<and>
    attrs p ''marketPrice'' = None \<longrightarrow>
      handle_sell cfgs ib ticker = Inl AttributeError \<and>
      orders_after ib (handle_sell cfgs ib ticker) = placed ib) \<and>
   attrs (Position acct sy pos cost) ''marketPrice'' = None \<and>
   handle_sell (one_config ''AAPL'' (Fin 1000) (Fin (5 / 2)))
       (position_broker (Position ''DU1'' ''AAPL'' (Fin 10) (Fin 100))) ''AAPL''
     = Inl AttributeError"
proof (intro conjI impI)
  assume h: "cfgs ticker = Some cfg \<and> find_position (positions ib) ticker = Some p \<and>
    attrs p ''marketPrice'' = None"
  then have "getattr p ''marketPrice'' = Inl AttributeError"
    by (simp add: getattr_def)
  with h show e: "handle_sell cfgs ib ticker = Inl AttributeError"
    using handle_sell_no_market_price [of cfgs ticker cfg ib p AttributeError] by simp
  show "orders_after ib (handle_sell cfgs ib ticker) = placed ib"
    by (simp add: e orders_after_def)
next
  show "attrs (Position acct sy pos cost) ''marketPrice'' = None"
    by (simp add: Position_def)
next
  show "handle_sell (one_config ''AAPL'' (Fin 1000) (Fin (5 / 2)))
       (position_broker (Position ''DU1'' ''AAPL'' (Fin 10) (Fin 100))) ''AAPL''
     = Inl AttributeError"
    using handle_sell_no_market_price
            [of "one_config ''AAPL'' (Fin 1000) (Fin (5 / 2))" "''AAPL''"
                "\<lparr>order_size = Fin 1000, min_profit = Fin (5 / 2)\<rparr>"
                "position_broker (Position ''DU1'' ''AAPL'' (Fin 10) (Fin 100))"
                "Position ''DU1'' ''AAPL'' (Fin 10) (Fin 100)" AttributeError]
    by (simp add: one_config_lookup Position_found Position_attrs)
qed

theorem sell_path_attribute_error_witness:
  "find_position (positions (position_broker (Position ''DU1'' ''AAPL'' (Fin 8) (Fin 50)))) ''AAPL''
     = Some (Position ''DU1'' ''AAPL'' (Fin 8) (Fin 50)) \<and>
   attrs (Position ''DU1'' ''AAPL'' (Fin 8) (Fin 50)) ''marketPrice'' = None \<and>
   handle_sell (one_config ''AAPL'' (Fin 1000) (Fin (5 / 2)))
       (position_broker (Position ''DU1'' ''AAPL'' (Fin 8) (Fin 50))) ''AAPL''
     = Inl AttributeError \<and>
   orders_after (position_broker (Position ''DU1'' ''AAPL'' (Fin 8) (Fin 50)))
       (handle_sell (one_config ''AAPL'' (Fin 1000) (Fin (5 / 2)))
          (position_broker (Position ''DU1'' ''AAPL'' (Fin 8) (Fin 50))) ''AAPL'')
     = placed (position_broker (Position ''DU1'' ''AAPL'' (Fin 8) (Fin 50)))"
proof -
  have f: "find_position (positions (position_broker (Position ''DU1'' ''AAPL'' (Fin 8) (Fin 50))))
             ''AAPL'' = Some (Position ''DU1'' ''AAPL'' (Fin 8) (Fin 50))"
    by (simp add: Position_found)
  show ?thesis
    using sell_path_attribute_error
            [of "one_config ''AAPL'' (Fin 1000) (Fin (5 / 2))" "''AAPL''"
                "\<lparr>order_size = Fin 1000, min_profit = Fin (5 / 2)\<rparr>"
                "position_broker (Position ''DU1'' ''AAPL'' (Fin 8) (Fin 50))"
                "Position ''DU1'' ''AAPL'' (Fin 8) (Fin 50)" "''DU1''" "''AAPL''" "Fin 8" "Fin 50"]
          f
    by (simp add: one_config_lookup orders_after_def)
qed




section \<open>Exceptions of the signal path\<close>



lemma handle_buy_infinite:
  "cfgs t = Some cfg \<Longrightarrow> available_funds fl (accountValues ib) = Inr a
     \<Longrightarrow> \<not> float_lt a (order_size cfg) \<Longrightarrow> buy_price (reqMktData ib t) \<noteq> Fin 0
     \<Longrightarrow> float_div (order_size cfg) (buy_price (reqMktData ib t)) = PInf
     \<Longrightarrow> handle_buy fl cfgs ib t = Inl OverflowError"
  by (simp add: handle_buy_def py_truediv_def Let_def)





section \<open>The configuration dialogue and the store\<close>

lemma conv_step_store:
  assumes "conv_step fl s u = Inr s'" and "store s' \<noteq> store s"
  shows "completes fl s u"
  using assms
  by (cases "conv s"; cases u)
     (auto simp: conv_step_def completes_def profit_received_def ticker_received_def
        order_size_received_def set_ticker_def cancel_def Let_def
        split: if_splits option.splits)

lemma conv_step_cancel:
  "\<exists>s'. conv_step fl s (Command ''cancel'') = Inr s' \<and> store s' = store s \<and> conv s' = END"
  by (cases "conv s") (simp_all add: conv_step_def cancel_def)

lemma order_size_rejected:
  "conv s = ORDER_SIZE \<Longrightarrow> fl (strip msg) = None \<Longrightarrow> conv_step fl s (Text msg) = Inr s"
  by (simp add: conv_step_def order_size_received_def)

lemma order_size_accepted:
  "conv s = ORDER_SIZE \<Longrightarrow> fl (strip msg) = Some x \<Longrightarrow>
   conv_step fl s (Text msg) =
     Inr (s\<lparr>conv := PROFIT_PCT, udata := (udata s)\<lparr>ud_order_size := Some x\<rparr>\<rparr>)"
  by (simp add: conv_step_def order_size_received_def)

lemma profit_rejected:
  "conv s = PROFIT_PCT \<Longrightarrow> fl (strip msg) = None \<Longrightarrow> conv_step fl s (Text msg) = Inr s"
  by (simp add: conv_step_def profit_received_def)

lemma enters_profit_step:
  assumes "conv_step fl s u = Inr s'" and "conv s' = PROFIT_PCT" and "conv s \<noteq> PROFIT_PCT"
  shows "conv s = ORDER_SIZE \<and> (\<exists>msg x. u = Text msg \<and> fl (strip msg) = Some x)"
  using assms
  by (cases "conv s"; cases u)
     (auto simp: conv_step_def ticker_received_def order_size_received_def set_ticker_def
        cancel_def Let_def split: if_splits option.splits)

lemma enters_order_size_step:
  assumes "conv_step fl s u = Inr s'" and "conv s' = ORDER_SIZE" and "conv s \<noteq> ORDER_SIZE"
  shows "conv s = TICKER \<and> (\<exists>msg. u = Text msg)"
  using assms
  by (cases "conv s"; cases u)
     (auto simp: conv_step_def ticker_received_def profit_received_def set_ticker_def
        cancel_def Let_def split: if_splits option.splits)

lemma abandoned_run_store:
  "abandoned fl s us \<Longrightarrow> run fl s us = Inr s' \<Longrightarrow> store s' = store s"
proof (induction us arbitrary: s)
  case Nil
  then show ?case by simp
next
  case (Cons u us)
  from Cons.prems(2) obtain s1 where step: "conv_step fl s u = Inr s1"
    and rest: "run fl s1 us = Inr s'"
    by (auto split: sum.splits)
  from Cons.prems(1) step have nc: "\<not> completes fl s u" and ab: "abandoned fl s1 us"
    by simp_all
  from step nc have "store s1 = store s"
    using conv_step_store by blast
  moreover from Cons.IH [OF ab rest] have "store s' = store s1" .
  ultimately show ?case by simp
qed

lemma session_ok_step:
  assumes "session_ok s"
  shows "\<exists>s'. conv_step fl s u = Inr s' \<and> session_ok s'"
  using assms
  by (cases "conv s"; cases u)
     (auto simp: conv_step_def session_ok_def ticker_received_def order_size_received_def
        profit_received_def set_ticker_def cancel_def Let_def split: option.splits)

lemma session_ok_run:
  "session_ok s \<Longrightarrow> \<exists>s'. run fl s us = Inr s' \<and> session_ok s'"
proof (induction us arbitrary: s)
  case Nil
  then show ?case by simp
next
  case (Cons u us)
  from session_ok_step [OF Cons.prems] obtain s1
    where "conv_step fl s u = Inr s1" and "session_ok s1" by blast
  with Cons.IH [of s1] show ?case by simp
qed

lemma completed_session:
  assumes "conv s = END" and "fl (strip sz) = Some x" and "fl (strip pc) = Some y"
  shows "run fl s [Command ''set'', Text tk, Text sz, Text pc] =
           Inr (s\<lparr>conv := END,
                 udata := (udata s)\<lparr>ud_ticker := Some (upper (strip tk)), ud_order_size := Some x\<rparr>,
                 store := (store s)(upper (strip tk) \<mapsto> \<lparr>order_size = x, min_profit = y\<rparr>)\<rparr>)"
  using assms
  by (simp add: conv_step_def ticker_received_def order_size_received_def
        profit_received_def set_ticker_def Let_def)

text \<open>
  C8, as the code has it. The store changes only in the step that completes a session:
  the third answer, a text that converts to a number, given in state \<open>PROFIT_PCT\<close>;
  that state is entered only from \<open>ORDER_SIZE\<close> by an order size that converts, and
  \<open>ORDER_SIZE\<close> only from \<open>TICKER\<close> by a text. \<open>/cancel\<close> ends the conversation with
  the store unchanged, and so does every run of updates that is abandoned. In state
  \<open>ORDER_SIZE\<close> an answer is accepted exactly when it converts to a number, whatever
  its sign; an answer that does not convert leaves the whole session, store included,
  as it was, so the same step is asked again. A session that is completed stores the
  pair under the upper-cased ticker. A conversation that was entered by \<open>/set\<close> never
  raises: every run of updates returns.
\<close>

theorem dialogue_store_updates:
  "(conv_step fl s u = Inr s' \<and> store s' \<noteq> store s \<longrightarrow> completes fl s u) \<and>
   (conv_step fl s u = Inr s' \<and> conv s' = PROFIT_PCT \<and> conv s \<noteq> PROFIT_PCT \<longrightarrow>
      conv s = ORDER_SIZE \<and> (\<exists>msg x. u = Text msg \<and> fl (strip msg) = Some x)) \<and>
   (conv_step fl s u = Inr s' \<and> conv s' = ORDER_SIZE \<and> conv s \<noteq> ORDER_SIZE \<longrightarrow>
      conv s = TICKER \<and> (\<exists>msg. u = Text msg)) \<and>
   (\<exists>s'. conv_step fl s (Command ''cancel'') = Inr s' \<and> store s' = store s \<and> conv s' = END) \<and>
   (abandoned fl s us \<and> run fl s us = Inr s' \<longrightarrow> store s' = store s) \<and>
   (conv s = ORDER_SIZE \<and> fl (strip msg) = None \<longrightarrow> conv_step fl s (Text msg) = Inr s) \<and>
   (conv s = ORDER_SIZE \<and> fl (strip msg) = Some x \<longrightarrow>
      conv_step fl s (Text msg) =
        Inr (s\<lparr>conv := PROFIT_PCT, udata := (udata s)\<lparr>ud_order_size := Some x\<rparr>\<rparr>)) \<and>
   (conv s = END \<and> fl (strip sz) = Some x \<and> fl (strip pc) = Some y \<longrightarrow>
      run fl s [Command ''set'', Text tk, Text sz, Text pc] =
        Inr (s\<lparr>conv := END,
              udata := (udata s)\<lparr>ud_ticker := Some (upper (strip tk)), ud_order_size := Some x\<rparr>,
              store := (store s)(upper (strip tk) \<mapsto> \<lparr>order_size = x, min_profit = y\<rparr>)\<rparr>)) \<and>
   (session_ok s \<longrightarrow> (\<exists>s'. run fl s us = Inr s' \<and> session_ok s'))"
proof -
  have c1: "conv_step fl s u = Inr s' \<and> store s' \<noteq> store s \<longrightarrow> completes fl s u"
    using conv_step_store [of fl s u s'] by blast
  have c2: "conv_step fl s u = Inr s' \<and> conv s' = PROFIT_PCT \<and> conv s \<noteq> PROFIT_PCT \<longrightarrow>
      conv s = ORDER_SIZE \<and> (\<exists>msg x. u = Text msg \<and> fl (strip msg) = Some x)"
    using enters_profit_step [of fl s u s'] by blast
  have c3: "conv_step fl s u = Inr s' \<and> conv s' = ORDER_SIZE \<and> conv s \<noteq> ORDER_SIZE \<longrightarrow>
      conv s = TICKER \<and> (\<exists>msg. u = Text msg)"
    using enters_order_size_step [of fl s u s'] by blast
  have c4: "\<exists>s'. conv_step fl s (Command ''cancel'') = Inr s' \<and> store s' = store s \<and> conv s' = END"
    by (rule conv_step_cancel)
  have c5: "abandoned fl s us \<and> run fl s us = Inr s' \<longrightarrow> store s' = store s"
    using abandoned_run_store [of fl s us s'] by blast
  have c6: "conv s = ORDER_SIZE \<and> fl (strip msg) = None \<longrightarrow> conv_step fl s (Text msg) = Inr s"
    using order_size_rejected [of s fl msg] by blast
  have c7: "conv s = ORDER_SIZE \<and> fl (strip msg) = Some x \<longrightarrow>
      conv_step fl s (Text msg) =
        Inr (s\<lparr>conv := PROFIT_PCT, udata := (udata s)\<lparr>ud_order_size := Some x\<rparr>\<rparr>)"
    using order_size_accepted [of s fl msg x] by blast
  have c8: "conv s = END \<and> fl (strip sz) = Some x \<and> fl (strip pc) = Some y \<longrightarrow>
      run fl s [Command ''set'', Text tk, Text sz, Text pc] =
        Inr (s\<lparr>conv := END,
              udata := (udata s)\<lparr>ud_ticker := Some (upper (strip tk)), ud_order_size := Some x\<rparr>,
              store := (store s)(upper (strip tk) \<mapsto> \<lparr>order_size = x, min_profit = y\<rparr>)\<rparr>)"
    using completed_session [of s fl sz x pc y tk] by blast
  have c9: "session_ok s \<longrightarrow> (\<exists>s'. run fl s us = Inr s' \<and> session_ok s')"
    using session_ok_run [of s fl us] by blast
  show ?thesis
    by (intro conjI) (rule c1 c2 c3 c4 c5 c6 c7 c8 c9)+
qed

lemmas dialogue_defs = conv_step_def ticker_received_def order_size_received_def
  profit_received_def set_ticker_def cancel_def completes_def session_at_def

theorem dialogue_store_updates_witness:
  "completes float_lit (session_at PROFIT_PCT (Some ''AAPL'') (Some (Fin 1000))) (Text ''2.5'') \<and>
   conv_step float_lit (session_at TICKER None None) (Text '' aapl '')
     = Inr (session_at ORDER_SIZE (Some ''AAPL'') None) \<and>
   conv_step float_lit (session_at ORDER_SIZE (Some ''AAPL'') None) (Text ''abc'')
     = Inr (session_at ORDER_SIZE (Some ''AAPL'') None) \<and>
   conv_step float_lit (session_at ORDER_SIZE (Some ''AAPL'') None) (Text ''1000'')
     = Inr (session_at PROFIT_PCT (Some ''AAPL'') (Some (Fin 1000))) \<and>
   run float_lit (session_at END None None)
       [Command ''set'', Text ''aapl'', Text ''1000'', Command ''cancel'']
     = Inr (session_at END (Some ''AAPL'') (Some (Fin 1000))) \<and>
   store (session_at END (Some ''AAPL'') (Some (Fin 1000))) = store (session_at END None None) \<and>
   run float_lit (session_at END None None)
       [Command ''set'', Text ''aapl'', Text ''1000'', Text ''2.5'']
     = Inr ((session_at END (Some ''AAPL'') (Some (Fin 1000)))
             \<lparr>store := one_config ''AAPL'' (Fin 1000) (Fin (5 / 2))\<rparr>) \<and>
   session_ok (session_at END None None) \<and>
   (\<exists>s'. run float_lit (session_at END None None)
            [Command ''set'', Text ''aapl'', Text ''abc'', Text ''2.5'', Text ''abc''] = Inr s' \<and>
         session_ok s')"
proof -
  have n: "float_lit (strip ''1000'') = Some (Fin 1000)" "float_lit (strip ''2.5'') = Some (Fin (5 / 2))"
    "float_lit (strip ''abc'') = None" "upper (strip '' aapl '') = ''AAPL''"
    "upper (strip ''aapl'') = ''AAPL''"
    by (simp_all add: strip_values float_lit_values upper_values)
  have done_step:
    "conv_step float_lit (session_at PROFIT_PCT (Some ''AAPL'') (Some (Fin 1000))) (Text ''2.5'')
       = Inr ((session_at END (Some ''AAPL'') (Some (Fin 1000)))
               \<lparr>store := one_config ''AAPL'' (Fin 1000) (Fin (5 / 2))\<rparr>)"
    by (simp add: dialogue_defs n one_config_def)
  have changed:
    "store ((session_at END (Some ''AAPL'') (Some (Fin 1000)))\<lparr>store := one_config ''AAPL'' (Fin 1000) (Fin (5 / 2))\<rparr>)
       \<noteq> store (session_at PROFIT_PCT (Some ''AAPL'') (Some (Fin 1000)))"
    by (simp add: session_at_def one_config_def)
  have size_step:
    "conv_step float_lit (session_at ORDER_SIZE (Some ''AAPL'') None) (Text ''1000'')
       = Inr (session_at PROFIT_PCT (Some ''AAPL'') (Some (Fin 1000)))"
    by (simp add: dialogue_defs n)
  have ticker_step:
    "conv_step float_lit (session_at TICKER None None) (Text '' aapl '')
       = Inr (session_at ORDER_SIZE (Some ''AAPL'') None)"
    by (simp add: dialogue_defs n)
  have cancelled:
    "run float_lit (session_at END None None)
       [Command ''set'', Text ''aapl'', Text ''1000'', Command ''cancel'']
     = Inr (session_at END (Some ''AAPL'') (Some (Fin 1000)))"
    by (simp add: dialogue_defs n)
  have ab:
    "abandoned float_lit (session_at END None None)
       [Command ''set'', Text ''aapl'', Text ''1000'', Command ''cancel'']"
    by (simp add: dialogue_defs n)
  have st: "conv (session_at ORDER_SIZE (Some ''AAPL'') None) = ORDER_SIZE"
    "conv (session_at END None None) = END"
    "conv (session_at PROFIT_PCT (Some ''AAPL'') (Some (Fin 1000))) = PROFIT_PCT"
    "conv (session_at TICKER None None) = TICKER"
    by (simp_all add: session_at_def)
  have upd:
    "(session_at END None None)
       \<lparr>conv := END,
        udata := (udata (session_at END None None))
                   \<lparr>ud_ticker := Some ''AAPL'', ud_order_size := Some (Fin 1000)\<rparr>,
        store := (store (session_at END None None))
                   (''AAPL'' \<mapsto> \<lparr>order_size = Fin 1000, min_profit = Fin (5 / 2)\<rparr>)\<rparr>
     = (session_at END (Some ''AAPL'') (Some (Fin 1000)))\<lparr>store := one_config ''AAPL'' (Fin 1000) (Fin (5 / 2))\<rparr>"
    by (simp add: session_at_def one_config_def)
  have a: "completes float_lit (session_at PROFIT_PCT (Some ''AAPL'') (Some (Fin 1000))) (Text ''2.5'')"
    using dialogue_store_updates
            [where fl = float_lit and s = "session_at PROFIT_PCT (Some ''AAPL'') (Some (Fin 1000))"
               and u = "Text ''2.5''"
               and s' = "(session_at END (Some ''AAPL'') (Some (Fin 1000)))
                           \<lparr>store := one_config ''AAPL'' (Fin 1000) (Fin (5 / 2))\<rparr>"]
          done_step changed
    by blast
  have b: "conv_step float_lit (session_at ORDER_SIZE (Some ''AAPL'') None) (Text ''abc'')
     = Inr (session_at ORDER_SIZE (Some ''AAPL'') None)"
    using dialogue_store_updates
            [where fl = float_lit and s = "session_at ORDER_SIZE (Some ''AAPL'') None"
               and msg = "''abc''"]
          st n
    by blast
  have c: "store (session_at END (Some ''AAPL'') (Some (Fin 1000))) = store (session_at END None None)"
    using dialogue_store_updates
            [where fl = float_lit and s = "session_at END None None"
               and us = "[Command ''set'', Text ''aapl'', Text ''1000'', Command ''cancel'']"
               and s' = "session_at END (Some ''AAPL'') (Some (Fin 1000))"]
          ab cancelled
    by blast
  have d: "run float_lit (session_at END None None)
       [Command ''set'', Text ''aapl'', Text ''1000'', Text ''2.5'']
     = Inr ((session_at END (Some ''AAPL'') (Some (Fin 1000)))
             \<lparr>store := one_config ''AAPL'' (Fin 1000) (Fin (5 / 2))\<rparr>)"
    using dialogue_store_updates
            [where fl = float_lit and s = "session_at END None None"
               and sz = "''1000''" and x = "Fin 1000" and pc = "''2.5''" and y = "Fin (5 / 2)"
               and tk = "''aapl''"]
          st n upd
    by simp
  have ok: "session_ok (session_at END None None)"
    by (simp add: session_ok_def session_at_def)
  have e: "\<exists>s'. run float_lit (session_at END None None)
            [Command ''set'', Text ''aapl'', Text ''abc'', Text ''2.5'', Text ''abc''] = Inr s' \<and>
         session_ok s'"
    using dialogue_store_updates
            [where fl = float_lit and s = "session_at END None None"
               and us = "[Command ''set'', Text ''aapl'', Text ''abc'', Text ''2.5'', Text ''abc'']"]
          ok
    by blast
  show ?thesis
    using a b c d e ok ticker_step size_step cancelled by simp
qed

text \<open>
  C8, as stated, fails: the order size \<open>-5\<close> is accepted, the dialogue moves on to the
  profit step, and the completed session stores the negative order size.
\<close>

theorem negative_order_size_counterexample:
  "order_size_received float_lit \<lparr>ud_ticker = Some ''AAPL'', ud_order_size = None\<rparr> ''-5''
     = (\<lparr>ud_ticker = Some ''AAPL'', ud_order_size = Some (Fin (- 5))\<rparr>, PROFIT_PCT) \<and>
   run float_lit (session_at END None None)
       [Command ''set'', Text ''aapl'', Text ''-5'', Text ''2.5'']
     = Inr ((session_at END (Some ''AAPL'') (Some (Fin (- 5))))
             \<lparr>store := one_config ''AAPL'' (Fin (- 5)) (Fin (5 / 2))\<rparr>)"
proof -
  have n: "float_lit (strip ''-5'') = Some (Fin (- 5))" "float_lit (strip ''2.5'') = Some (Fin (5 / 2))"
    "upper (strip ''aapl'') = ''AAPL''"
    by (simp_all add: strip_values float_lit_values upper_values)
  show ?thesis
    by (simp add: dialogue_defs n one_config_def)
qed

end
